theory Spec2Isabelle
  imports Complex_Main "HOL-Library.AList"
begin

section \<open>Values of the JavaScript runtime\<close>

text \<open>
  The server is TypeScript (\<^verbatim>\<open>src/index.ts\<close>).  Tool arguments and upstream response
  bodies arrive as JSON and are typed \<^verbatim>\<open>any\<close>, so they are modelled as JavaScript
  values.  Strings are byte lists holding the UTF-8 encoding of the JavaScript string
  (which is well-formed Unicode when it comes from JSON text without escaped lone
  surrogates).  The source concatenates strings, compares them with \<^verbatim>\<open>===\<close> and tests
  them for emptiness, which agree on both encodings, and hands them to conversions of
  the runtime, which are modelled on the bytes.

  A finite Number is its exact value, a rational: \<open>Fin r\<close> is a Number when \<open>r\<close> is a
  binary64 value, and the rationals that are none stand for no Number.  The source
  performs no arithmetic on Numbers: it compares them with the constants 0 and 100 and
  converts them to and from decimal text; reading a literal rounds its value to the
  nearest binary64 value, ties to even, and printing finds the shortest decimal that
  reads back.  \<open>-0\<close> and \<open>+0\<close> are one value, which no operation used here can
  distinguish.
\<close>

datatype jsnum = Fin rat | NaN | PosInf | NegInf

datatype jsval =
    JUndefined
  | JNull
  | JBool bool
  | JNum jsnum
  | JStr string
  | JArr "jsval list"
  | JObj "(string \<times> jsval) list"

text \<open>
  What a \<^verbatim>\<open>throw\<close> raises: the constructor's name and the message.  The source itself
  only ever throws \<^verbatim>\<open>new Error(message)\<close>; \<open>TypeError\<close> and \<open>SyntaxError\<close> come from
  the runtime.
\<close>

datatype js_error = Error string | TypeError string | SyntaxError string

definition utf8 :: "nat list \<Rightarrow> string" where
  "utf8 bs = map char_of bs"

section \<open>Conversions of the runtime\<close>

text \<open>\<^verbatim>\<open>ToBoolean\<close>: what \<^verbatim>\<open>x && ...\<close>, \<^verbatim>\<open>x || ...\<close> and \<^verbatim>\<open>!x\<close> test.\<close>

fun truthy :: "jsval \<Rightarrow> bool" where
  "truthy JUndefined = False"
| "truthy JNull = False"
| "truthy (JBool b) = b"
| "truthy (JNum (Fin r)) = (r \<noteq> 0)"
| "truthy (JNum NaN) = False"
| "truthy (JNum PosInf) = True"
| "truthy (JNum NegInf) = True"
| "truthy (JStr s) = (s \<noteq> [])"
| "truthy (JArr xs) = True"
| "truthy (JObj kvs) = True"

text \<open>
  The comparisons of lines 93 and 94, \<^verbatim>\<open>n > c\<close> and \<^verbatim>\<open>n <= c\<close> for a finite constant
  \<open>c\<close>: both are false on \<open>NaN\<close>.
\<close>

fun js_gt :: "jsnum \<Rightarrow> rat \<Rightarrow> bool" where
  "js_gt (Fin r) c = (c < r)"
| "js_gt NaN c = False"
| "js_gt PosInf c = True"
| "js_gt NegInf c = False"

fun js_le :: "jsnum \<Rightarrow> rat \<Rightarrow> bool" where
  "js_le (Fin r) c = (r \<le> c)"
| "js_le NaN c = False"
| "js_le PosInf c = False"
| "js_le NegInf c = True"

subsection \<open>Rounding to binary64\<close>

text \<open>
  \<open>round_binary64 a b\<close> is the Number nearest to the rational \<open>a / b\<close>, for \<open>b > 0\<close>:
  with \<open>e\<close> the binary exponent of the value, at least \<open>-1022\<close>, the value is rounded to
  a multiple of \<open>2 ^ (e - 52)\<close>, ties to the even multiple; a value of at least
  \<open>2 ^ 1024 - 2 ^ 970\<close>, the midpoint above the largest finite Number, is infinite.
\<close>

function bit_length :: "int \<Rightarrow> nat" where
  "bit_length n = (if n \<le> 0 then 0 else Suc (bit_length (n div 2)))"
  by pat_completeness auto
termination
  by (relation "measure nat") auto

declare bit_length.simps [simp del]

fun shift_left :: "nat \<Rightarrow> int \<Rightarrow> int" where
  "shift_left 0 a = a"
| "shift_left (Suc n) a = shift_left n (2 * a)"

definition scale2 :: "int \<Rightarrow> int \<Rightarrow> int \<Rightarrow> int \<times> int" where
  "scale2 a b e = (if 0 \<le> e then (shift_left (nat e) a, b) else (a, shift_left (nat (- e)) b))"

definition floor_log2 :: "int \<Rightarrow> int \<Rightarrow> int" where
  "floor_log2 a b =
     (let e = int (bit_length a) - int (bit_length b)
      in case scale2 b a e of (c, d) \<Rightarrow> if c \<le> d then e else e - 1)"

definition round_half_even :: "int \<Rightarrow> int \<Rightarrow> int" where
  "round_half_even a b =
     (let f = a div b; d = 2 * (a mod b)
      in if d < b then f else if b < d then f + 1 else if even f then f else f + 1)"

definition overflow_threshold :: int where
  "overflow_threshold = 179769313486231580793728971405303415079934132710037826936173778980444968292764750946649017977587207096330286416692887910946555547851940402630657488671505820681908902000708383676273854845817711531764475730270069855571366959622842914819860834936475292719074168444365510704342711559699508093042880177904174497792"

definition round_positive :: "int \<Rightarrow> int \<Rightarrow> jsnum" where
  "round_positive a b =
     (if overflow_threshold * b \<le> a then PosInf
      else
        let q = max (floor_log2 a b) (- 1022) - 52
        in case scale2 a b (- q) of (c, d) \<Rightarrow>
             case scale2 (round_half_even c d) 1 q of (m, n) \<Rightarrow> Fin (of_int m / of_int n))"

definition negate :: "jsnum \<Rightarrow> jsnum" where
  "negate n = (case n of Fin r \<Rightarrow> Fin (- r) | NaN \<Rightarrow> NaN | PosInf \<Rightarrow> NegInf | NegInf \<Rightarrow> PosInf)"

definition round_binary64 :: "int \<Rightarrow> int \<Rightarrow> jsnum" where
  "round_binary64 a b =
     (if a = 0 then Fin 0
      else if a < 0 then negate (round_positive (- a) b)
      else round_positive a b)"

subsection \<open>Numbers to text\<close>

text \<open>
  \<^verbatim>\<open>Number.prototype.toString()\<close>, in radix 10, as ECMA-262 defines \<^verbatim>\<open>Number::toString\<close>:
  the digits are those of the decimal with the fewest digits that rounds to the Number
  (of two such, the nearer one, and of two equally near, the even one), searched from
  1 digit up to the 17 that always suffice.  With \<open>s\<close> the digits without trailing
  zeros, \<open>k\<close> their count and \<open>n\<close> the position of the decimal point, the notation is
  positional for \<open>-6 < n \<le> 21\<close> and exponential otherwise.
\<close>

definition digit_char :: "int \<Rightarrow> char" where
  "digit_char d = ''0123456789abcdef'' ! nat d"

function decimal :: "int \<Rightarrow> string" where
  "decimal n = (if n < 10 then [digit_char n] else decimal (n div 10) @ [digit_char (n mod 10)])"
  by pat_completeness auto
termination
  by (relation "measure nat") auto

declare decimal.simps [simp del]

function strip_factor :: "int \<Rightarrow> int \<Rightarrow> int \<times> nat" where
  "strip_factor p n =
     (if 1 < p \<and> 0 < n \<and> p dvd n
      then (case strip_factor p (n div p) of (m, c) \<Rightarrow> (m, Suc c))
      else (n, 0))"
  by pat_completeness auto
termination
proof (relation "measure (\<lambda>(p, n). nat n)")
  show "wf (measure (\<lambda>(p, n). nat n))" by simp
next
  fix p n :: int
  assume "1 < p \<and> 0 < n \<and> p dvd n"
  then have "n div p < n" by (simp add: int_div_less_self)
  moreover have "0 \<le> n div p" using \<open>1 < p \<and> 0 < n \<and> p dvd n\<close> by (simp add: pos_imp_zdiv_nonneg_iff)
  ultimately show "((p, n div p), p, n) \<in> measure (\<lambda>(p, n). nat n)" by simp
qed

declare strip_factor.simps [simp del]

definition decimal_places :: "int \<Rightarrow> nat option" where
  "decimal_places b =
     (case strip_factor 2 b of (b2, x) \<Rightarrow>
        case strip_factor 5 b2 of (b5, y) \<Rightarrow>
          if b5 = 1 then Some (max x y) else None)"

definition strip_zeros :: "string \<Rightarrow> string" where
  "strip_zeros ds = rev (dropWhile (\<lambda>c. c = CHR ''0'') (rev ds))"

definition zeros :: "nat \<Rightarrow> string" where
  "zeros n = replicate n CHR ''0''"

definition exponent_part :: "int \<Rightarrow> string" where
  "exponent_part n = ''e'' @ (if 1 \<le> n then ''+'' else ''-'') @ decimal \<bar>n - 1\<bar>"

definition decimal_toString :: "rat \<Rightarrow> string" where
  "decimal_toString v =
     (case quotient_of v of (a, b) \<Rightarrow>
        (case decimal_places b of
           None \<Rightarrow> []
         | Some j \<Rightarrow>
             let ds = decimal (a * 10 ^ j div b);
                 s = strip_zeros ds;
                 k = int (length s);
                 n = int (length ds) - int j
             in if k \<le> n \<and> n \<le> 21 then s @ zeros (nat (n - k))
                else if 0 < n \<and> n \<le> 21 then take (nat n) s @ ''.'' @ drop (nat n) s
                else if - 6 < n \<and> n \<le> 0 then ''0.'' @ zeros (nat (- n)) @ s
                else if k = 1 then s @ exponent_part n
                else take 1 s @ ''.'' @ drop 1 s @ exponent_part n))"

function leading_zeros :: "int \<Rightarrow> int \<Rightarrow> nat" where
  "leading_zeros a b = (if b \<le> a \<or> a \<le> 0 then 0 else Suc (leading_zeros (10 * a) b))"
  by pat_completeness auto
termination
  by (relation "measure (\<lambda>(a, b). nat (b - a))") auto

declare leading_zeros.simps [simp del]

definition decimal_exponent :: "int \<Rightarrow> int \<Rightarrow> int" where
  "decimal_exponent a b =
     (if b \<le> a then int (length (decimal (a div b))) else 1 - int (leading_zeros a b))"

definition scale10 :: "int \<Rightarrow> int \<Rightarrow> int \<Rightarrow> int \<times> int" where
  "scale10 a b e = (if 0 \<le> e then (a * 10 ^ nat e, b) else (a, b * 10 ^ nat (- e)))"

definition candidate :: "int \<Rightarrow> int \<Rightarrow> int \<Rightarrow> rat option" where
  "candidate a b p =
     (case scale10 a b (- p) of (c, d) \<Rightarrow>
        let lo = c div d;
            hi = lo + 1;
            reads = (\<lambda>s. 0 < s \<and> (case scale10 s 1 p of (m, n) \<Rightarrow> round_binary64 m n) = Fin (of_int a / of_int b));
            prefer_lo = (2 * c < (2 * lo + 1) * d \<or> (2 * c = (2 * lo + 1) * d \<and> even lo));
            pick = (\<lambda>s. case scale10 s 1 p of (m, n) \<Rightarrow> Some (of_int m / of_int n))
        in if reads lo \<and> (prefer_lo \<or> \<not> reads hi) then pick lo
           else if reads hi then pick hi
           else None)"

fun shortest_search :: "nat \<Rightarrow> int \<Rightarrow> int \<Rightarrow> int \<Rightarrow> int \<Rightarrow> rat option" where
  "shortest_search 0 k a b n = None"
| "shortest_search (Suc fuel) k a b n =
     (case candidate a b (n - k) of
        Some v \<Rightarrow> Some v
      | None \<Rightarrow> shortest_search fuel (k + 1) a b n)"

definition shortest_decimal :: "rat \<Rightarrow> rat" where
  "shortest_decimal x =
     (case quotient_of x of (a, b) \<Rightarrow>
        case shortest_search 17 1 a b (decimal_exponent a b) of
          Some v \<Rightarrow> v
        | None \<Rightarrow> x)"

fun number_toString :: "jsnum \<Rightarrow> string" where
  "number_toString NaN = ''NaN''"
| "number_toString PosInf = ''Infinity''"
| "number_toString NegInf = ''-Infinity''"
| "number_toString (Fin r) =
     (if r = 0 then ''0''
      else if r < 0 then ''-'' @ decimal_toString (shortest_decimal (- r))
      else decimal_toString (shortest_decimal r))"

subsection \<open>Values to text\<close>

text \<open>
  \<^verbatim>\<open>ToString\<close>, which a template literal applies to each interpolated value.  An array
  joins its elements with commas, \<^verbatim>\<open>null\<close> and \<^verbatim>\<open>undefined\<close> elements as the empty
  string.  A plain object is converted by \<^verbatim>\<open>OrdinaryToPrimitive\<close>, which calls the
  methods \<^verbatim>\<open>toString\<close> and \<^verbatim>\<open>valueOf\<close> where they are callable: the inherited
  \<^verbatim>\<open>toString\<close> gives \<^verbatim>\<open>[object Object]\<close>, the inherited \<^verbatim>\<open>valueOf\<close> gives the object
  itself, which is no primitive, and an own property of an object read from JSON is
  never callable.  So an object with an own property \<^verbatim>\<open>toString\<close> has no primitive
  value, and the conversion throws a \<open>TypeError\<close> (in the wording of the V8 engine).
\<close>

definition msg_no_primitive :: string where
  "msg_no_primitive = ''Cannot convert object to primitive value''"

fun join :: "string \<Rightarrow> string list \<Rightarrow> string" where
  "join sep [] = []"
| "join sep [x] = x"
| "join sep (x # y # ys) = x @ sep @ join sep (y # ys)"

fun collect :: "('e + 'a) list \<Rightarrow> 'e + 'a list" where
  "collect [] = Inr []"
| "collect (Inl e # rs) = Inl e"
| "collect (Inr x # rs) = (case collect rs of Inl e \<Rightarrow> Inl e | Inr xs \<Rightarrow> Inr (x # xs))"

fun ToString :: "jsval \<Rightarrow> js_error + string" where
  "ToString JUndefined = Inr ''undefined''"
| "ToString JNull = Inr ''null''"
| "ToString (JBool b) = Inr (if b then ''true'' else ''false'')"
| "ToString (JNum n) = Inr (number_toString n)"
| "ToString (JStr s) = Inr s"
| "ToString (JArr xs) =
     (case collect (map (\<lambda>x. if x = JUndefined \<or> x = JNull then Inr [] else ToString x) xs) of
        Inl e \<Rightarrow> Inl e
      | Inr parts \<Rightarrow> Inr (join '','' parts))"
| "ToString (JObj kvs) =
     (if map_of kvs ''toString'' = None then Inr ''[object Object]''
      else Inl (TypeError msg_no_primitive))"

subsection \<open>Text to numbers\<close>

text \<open>
  \<^verbatim>\<open>Number(x)\<close> is \<^verbatim>\<open>ToNumber\<close>; on a string it is \<^verbatim>\<open>StringToNumber\<close>: white space and
  line terminators are trimmed on both sides (\<open>ws_len\<close> is the length in bytes of the
  white space character a string starts with, 0 when it starts with none), the empty
  string is 0, and the rest must be a decimal literal with an optional sign, fraction
  and exponent, \<^verbatim>\<open>Infinity\<close> with an optional sign, or an unsigned binary, octal or
  hexadecimal integer literal, whose value is rounded to binary64; everything else is
  \<open>NaN\<close>.  An array or object is first converted to a string, which may throw.
\<close>

definition byte :: "char \<Rightarrow> int" where
  "byte c = of_char c"

definition ws_len :: "string \<Rightarrow> nat" where
  "ws_len s =
     (if s = [] then 0
      else if byte (hd s) \<in> set [0x09, 0x0A, 0x0B, 0x0C, 0x0D, 0x20] then 1
      else if map byte (take 2 s) = [0xC2, 0xA0] then 2
      else if map byte (take 2 s) = [0xE2, 0x80] \<and> length s \<ge> 3 \<and>
              (0x80 \<le> byte (s ! 2) \<and> byte (s ! 2) \<le> 0x8A \<or>
               byte (s ! 2) \<in> set [0xA8, 0xA9, 0xAF]) then 3
      else if map byte (take 3 s) \<in> set [[0xE1, 0x9A, 0x80], [0xE2, 0x81, 0x9F],
                [0xE3, 0x80, 0x80], [0xEF, 0xBB, 0xBF]] then 3
      else 0)"

function skip_ws :: "string \<Rightarrow> string" where
  "skip_ws s = (if ws_len s = 0 then s else skip_ws (drop (ws_len s) s))"
  by pat_completeness auto
termination
proof (relation "measure length")
  show "wf (measure length)" by simp
next
  fix s :: string
  assume "ws_len s \<noteq> 0"
  then have "s \<noteq> []" by (auto simp: ws_len_def)
  with \<open>ws_len s \<noteq> 0\<close> show "(drop (ws_len s) s, s) \<in> measure length" by simp
qed

declare skip_ws.simps [simp del]

fun trim_end :: "string \<Rightarrow> string" where
  "trim_end [] = []"
| "trim_end (c # cs) = (if skip_ws (c # cs) = [] then [] else c # trim_end cs)"

definition trim :: "string \<Rightarrow> string" where
  "trim s = trim_end (skip_ws s)"

definition digit_of :: "int \<Rightarrow> char \<Rightarrow> int option" where
  "digit_of base c =
     (let b = byte c;
          d = (if 0x30 \<le> b \<and> b \<le> 0x39 then b - 0x30
               else if 0x61 \<le> b \<and> b \<le> 0x66 then b - 0x61 + 10
               else if 0x41 \<le> b \<and> b \<le> 0x46 then b - 0x41 + 10
               else base)
      in if d < base then Some d else None)"

definition is_digit :: "char \<Rightarrow> bool" where
  "is_digit c = (digit_of 10 c \<noteq> None)"

definition digits_value :: "int \<Rightarrow> string \<Rightarrow> int" where
  "digits_value base ds = foldl (\<lambda>a c. a * base + the (digit_of base c)) 0 ds"

definition parse_digits :: "int \<Rightarrow> string \<Rightarrow> int option" where
  "parse_digits base ds =
     (if ds \<noteq> [] \<and> list_all (\<lambda>c. digit_of base c \<noteq> None) ds
      then Some (digits_value base ds) else None)"

definition round_decimal :: "int \<Rightarrow> int \<Rightarrow> jsnum" where
  "round_decimal m e = (case scale10 m 1 e of (a, b) \<Rightarrow> round_binary64 a b)"

definition parse_exponent :: "string \<Rightarrow> int option" where
  "parse_exponent s =
     (case s of
        [] \<Rightarrow> Some 0
      | c # r \<Rightarrow>
          if c = CHR ''e'' \<or> c = CHR ''E'' then
            (case r of
               [] \<Rightarrow> None
             | d # r' \<Rightarrow>
                 if d = CHR ''+'' then parse_digits 10 r'
                 else if d = CHR ''-'' then map_option uminus (parse_digits 10 r')
                 else parse_digits 10 r)
          else None)"

definition parse_unsigned_decimal :: "string \<Rightarrow> jsnum option" where
  "parse_unsigned_decimal s =
     (if s = ''Infinity'' then Some PosInf
      else
        let ip = takeWhile is_digit s;
            r1 = dropWhile is_digit s;
            fp = (case r1 of [] \<Rightarrow> [] | c # r \<Rightarrow> if c = CHR ''.'' then takeWhile is_digit r else []);
            r2 = (case r1 of [] \<Rightarrow> [] | c # r \<Rightarrow> if c = CHR ''.'' then dropWhile is_digit r else r1)
        in if ip = [] \<and> fp = [] then None
           else (case parse_exponent r2 of
                   None \<Rightarrow> None
                 | Some e \<Rightarrow>
                     Some (round_decimal (digits_value 10 (ip @ fp)) (e - int (length fp)))))"

definition parse_non_decimal :: "string \<Rightarrow> jsnum option" where
  "parse_non_decimal s =
     (if take 2 s \<in> set [''0x'', ''0X''] then map_option (\<lambda>n. round_binary64 n 1) (parse_digits 16 (drop 2 s))
      else if take 2 s \<in> set [''0o'', ''0O''] then map_option (\<lambda>n. round_binary64 n 1) (parse_digits 8 (drop 2 s))
      else if take 2 s \<in> set [''0b'', ''0B''] then map_option (\<lambda>n. round_binary64 n 1) (parse_digits 2 (drop 2 s))
      else None)"

definition StringToNumber :: "string \<Rightarrow> jsnum" where
  "StringToNumber str =
     (let s = trim str in
      if s = [] then Fin 0
      else case parse_non_decimal s of
             Some n \<Rightarrow> n
           | None \<Rightarrow>
               (case (if hd s = CHR ''+'' then parse_unsigned_decimal (tl s)
                      else if hd s = CHR ''-'' then map_option negate (parse_unsigned_decimal (tl s))
                      else parse_unsigned_decimal s) of
                  Some n \<Rightarrow> n
                | None \<Rightarrow> NaN))"

fun ToNumber :: "jsval \<Rightarrow> js_error + jsnum" where
  "ToNumber JUndefined = Inr NaN"
| "ToNumber JNull = Inr (Fin 0)"
| "ToNumber (JBool b) = Inr (Fin (if b then 1 else 0))"
| "ToNumber (JNum n) = Inr n"
| "ToNumber (JStr s) = Inr (StringToNumber s)"
| "ToNumber (JArr xs) =
     (case ToString (JArr xs) of Inl e \<Rightarrow> Inl e | Inr s \<Rightarrow> Inr (StringToNumber s))"
| "ToNumber (JObj kvs) =
     (case ToString (JObj kvs) of Inl e \<Rightarrow> Inl e | Inr s \<Rightarrow> Inr (StringToNumber s))"

subsection \<open>JSON text\<close>

text \<open>
  \<^verbatim>\<open>JSON.stringify(value, null, space)\<close> as ECMA-262 defines it (\<^verbatim>\<open>SerializeJSONProperty\<close>,
  \<^verbatim>\<open>SerializeJSONArray\<close>, \<^verbatim>\<open>SerializeJSONObject\<close>, \<^verbatim>\<open>QuoteJSONString\<close>): \<open>gap\<close> is the
  text of one indentation step, \<open>indent\<close> the current indentation.  The result \<open>None\<close>
  is \<^verbatim>\<open>undefined\<close>.  An object lists its properties in the order of the association
  list, whose keys are distinct.
\<close>

definition dquote :: string where
  "dquote = [CHR 0x22]"

definition backslash :: string where
  "backslash = [CHR 0x5C]"

definition newline :: string where
  "newline = [CHR 0x0A]"

definition hex_char :: "int \<Rightarrow> char" where
  "hex_char d = ''0123456789abcdef'' ! nat d"

definition escape_char :: "char \<Rightarrow> string" where
  "escape_char c =
     (let b = byte c in
      if b = 0x08 then backslash @ ''b''
      else if b = 0x09 then backslash @ ''t''
      else if b = 0x0A then backslash @ ''n''
      else if b = 0x0C then backslash @ ''f''
      else if b = 0x0D then backslash @ ''r''
      else if b = 0x22 then backslash @ dquote
      else if b = 0x5C then backslash @ backslash
      else if b < 0x20 then backslash @ ''u00'' @ [hex_char (b div 16), hex_char (b mod 16)]
      else [c])"

definition QuoteJSONString :: "string \<Rightarrow> string" where
  "QuoteJSONString s = dquote @ concat (map escape_char s) @ dquote"

definition wrap_items :: "string \<Rightarrow> string \<Rightarrow> string \<Rightarrow> string \<Rightarrow> string list \<Rightarrow> string" where
  "wrap_items opening closing gap indent items =
     (if gap = [] then opening @ join '','' items @ closing
      else opening @ newline @ indent @ gap @
           join ('','' @ newline @ indent @ gap) items @ newline @ indent @ closing)"

fun SerializeJSONProperty :: "string \<Rightarrow> string \<Rightarrow> jsval \<Rightarrow> string option" where
  "SerializeJSONProperty gap indent JUndefined = None"
| "SerializeJSONProperty gap indent JNull = Some ''null''"
| "SerializeJSONProperty gap indent (JBool b) = Some (if b then ''true'' else ''false'')"
| "SerializeJSONProperty gap indent (JNum n) =
     Some (case n of Fin r \<Rightarrow> number_toString n | NaN \<Rightarrow> ''null'' | PosInf \<Rightarrow> ''null'' | NegInf \<Rightarrow> ''null'')"
| "SerializeJSONProperty gap indent (JStr s) = Some (QuoteJSONString s)"
| "SerializeJSONProperty gap indent (JArr xs) =
     Some (if xs = [] then ''[]''
           else wrap_items ''['' '']'' gap indent
                  (map (\<lambda>x. case SerializeJSONProperty gap (indent @ gap) x of
                               None \<Rightarrow> ''null'' | Some t \<Rightarrow> t) xs))"
| "SerializeJSONProperty gap indent (JObj kvs) =
     (let members = concat (map (\<lambda>(k, v).
              case SerializeJSONProperty gap (indent @ gap) v of
                None \<Rightarrow> []
              | Some t \<Rightarrow> [QuoteJSONString k @ '':'' @ (if gap = [] then [] else '' '') @ t]) kvs)
      in Some (if members = [] then ''{}'' else wrap_items ''{'' ''}'' gap indent members))"

definition JSON_stringify :: "jsval \<Rightarrow> nat \<Rightarrow> string option" where
  "JSON_stringify v space = SerializeJSONProperty (replicate (min 10 space) CHR '' '') [] v"


















section \<open>The static resource\<close>

text \<open>The message of line 63, \<^verbatim>\<open>SAMPLE_ENV\<close> surrounded by Japanese text, in UTF-8.\<close>

definition msg_sample_env_missing :: string where
  "msg_sample_env_missing =
     utf8 [231, 146, 176, 229, 162, 131, 229, 164, 137, 230, 149, 176] @ '' SAMPLE_ENV '' @
     utf8 [227, 129, 140, 232, 168, 173, 229, 174, 154, 227, 129, 149, 227, 130, 140,
           227, 129, 166, 227, 129, 132, 227, 129, 190, 227, 129, 155, 227, 130, 147]"

text \<open>The constant part of the template literal of line 70, up to the interpolation.\<close>

definition greeting_prefix :: string where
  "greeting_prefix =
     utf8 [227, 129, 147, 227, 130, 147, 227, 129, 171, 227, 129, 161, 227, 129, 175,
           239, 188, 129, 227, 130, 183, 227, 131, 179, 227, 131, 151, 227, 131, 171,
           227, 129, 170] @ ''MCP'' @
     utf8 [227, 130, 181, 227, 131, 188, 227, 131, 144, 227, 131, 188, 227, 129, 184,
           227, 130, 136, 227, 129, 134, 227, 129, 147, 227, 129, 157, 227, 128, 130] @
     newline @
     utf8 [231, 146, 176, 229, 162, 131, 229, 164, 137, 230, 149, 176] @ '' SAMPLE_ENV: ''"

text \<open>The constant part of the template literal of line 75.\<close>

definition msg_unknown_resource :: string where
  "msg_unknown_resource =
     utf8 [228, 184, 141, 230, 152, 142, 227, 129, 170, 227, 131, 170, 227, 130, 189,
           227, 131, 188, 227, 130, 185] @ '': ''"

text \<open>
  \<^verbatim>\<open>readResource(uri)\<close>, lines 56 to 76.  The process environment is a partial map
  from names to strings; \<^verbatim>\<open>!sampleEnv\<close> holds for an unset variable and for the empty
  string.
\<close>

definition readResource :: "(string \<rightharpoonup> string) \<Rightarrow> string \<Rightarrow> js_error + jsval" where
  "readResource env uri =
     (if uri = ''simple://greeting'' then
        (case env ''SAMPLE_ENV'' of
           None \<Rightarrow> Inl (Error msg_sample_env_missing)
         | Some sampleEnv \<Rightarrow>
             if sampleEnv = [] then Inl (Error msg_sample_env_missing)
             else Inr (JObj [(''contents'', JArr [JObj [
                    (''uri'', JStr uri),
                    (''mimeType'', JStr ''text/plain''),
                    (''text'', JStr (greeting_prefix @ sampleEnv))]])]))
      else Inl (Error (msg_unknown_resource @ uri)))"

section \<open>The environment of a call\<close>

text \<open>
  What the code reads from and does to the world.  A \<^verbatim>\<open>URL\<close> object is the parsed
  address: everything before the query as the parser normalised it, the list of query
  parameters, and the fragment.  \<^verbatim>\<open>new URL(s)\<close> is the runtime's parser, which throws a
  \<open>TypeError\<close> on a string that is no absolute URL; it is a parameter of the model, as
  are the process environment and the behaviour of \<^verbatim>\<open>fetch\<close>.  A response is its
  status and the outcome of \<^verbatim>\<open>response.json()\<close>, which rejects when the body is not
  JSON text.
\<close>

record url =
  url_base :: string
  searchParams :: "(string \<times> string) list"
  fragment :: "string option"

record request_init =
  init_method :: "string option"
  init_headers :: "(string \<times> string) list"
  init_body :: "string option"

record response =
  status :: nat
  json_body :: "js_error + jsval"

record platform =
  process_env :: "string \<rightharpoonup> string"
  new_URL :: "string \<Rightarrow> js_error + url"
  fetch :: "string \<Rightarrow> request_init \<Rightarrow> js_error + response"

text \<open>The method of a request: \<^verbatim>\<open>fetch\<close> sends \<^verbatim>\<open>GET\<close> when the options name none.\<close>

definition request_method :: "request_init \<Rightarrow> string" where
  "request_method init = (case init_method init of None \<Rightarrow> ''GET'' | Some m \<Rightarrow> m)"

text \<open>\<^verbatim>\<open>response.ok\<close>: the status is in the range 200 to 299.\<close>

definition ok :: "response \<Rightarrow> bool" where
  "ok r = (200 \<le> status r \<and> status r \<le> 299)"

text \<open>
  The percent-encoding of the \<^verbatim>\<open>application/x-www-form-urlencoded\<close> serialiser, which
  \<^verbatim>\<open>URLSearchParams\<close> applies to the UTF-8 bytes of names and values.
\<close>

definition HEX_char :: "int \<Rightarrow> char" where
  "HEX_char d = ''0123456789ABCDEF'' ! nat d"

definition urlencode_char :: "char \<Rightarrow> string" where
  "urlencode_char c =
     (let b = byte c in
      if b = 0x20 then ''+''
      else if b \<in> set [0x2A, 0x2D, 0x2E, 0x5F] \<or> (0x30 \<le> b \<and> b \<le> 0x39) \<or>
              (0x41 \<le> b \<and> b \<le> 0x5A) \<or> (0x61 \<le> b \<and> b \<le> 0x7A) then [c]
      else ''%'' @ [HEX_char (b div 16), HEX_char (b mod 16)])"

definition urlencode :: "string \<Rightarrow> string" where
  "urlencode s = concat (map urlencode_char s)"

definition serialize_params :: "(string \<times> string) list \<Rightarrow> string" where
  "serialize_params ps = join ''&'' (map (\<lambda>(k, v). urlencode k @ ''='' @ urlencode v) ps)"

text \<open>\<^verbatim>\<open>url.searchParams.append(name, value)\<close> and \<^verbatim>\<open>url.toString()\<close>.\<close>

definition searchParams_append :: "url \<Rightarrow> string \<Rightarrow> string \<Rightarrow> url" where
  "searchParams_append u k v = u\<lparr>searchParams := searchParams u @ [(k, v)]\<rparr>"

definition url_toString :: "url \<Rightarrow> string" where
  "url_toString u =
     url_base u @
     (if searchParams u = [] then [] else ''?'' @ serialize_params (searchParams u)) @
     (case fragment u of None \<Rightarrow> [] | Some f \<Rightarrow> ''#'' @ f)"

text \<open>
  Reading a property.  \<open>member v k\<close> is \<^verbatim>\<open>v.k\<close> on a value that is neither \<^verbatim>\<open>null\<close>
  nor \<^verbatim>\<open>undefined\<close>, for the names the source reads (\<^verbatim>\<open>count\<close>, \<^verbatim>\<open>order\<close>, \<^verbatim>\<open>errors\<close>,
  \<^verbatim>\<open>message\<close>, \<^verbatim>\<open>code\<close>), none of which a prototype defines: an object has the
  properties of its list, every other value has none.  \<open>optional_member v k\<close> is
  \<^verbatim>\<open>v?.k\<close> and \<open>optional_first v\<close> is \<^verbatim>\<open>v?.[0]\<close>; the first element of a string is a
  string of one unit, of which the callers only ever read a property it has not.
\<close>

definition nullish :: "jsval \<Rightarrow> bool" where
  "nullish v = (v = JUndefined \<or> v = JNull)"

definition member :: "jsval \<Rightarrow> string \<Rightarrow> jsval" where
  "member v k =
     (case v of
        JObj kvs \<Rightarrow> (case map_of kvs k of None \<Rightarrow> JUndefined | Some x \<Rightarrow> x)
      | _ \<Rightarrow> JUndefined)"

definition optional_member :: "jsval \<Rightarrow> string \<Rightarrow> jsval" where
  "optional_member v k = (if nullish v then JUndefined else member v k)"

definition optional_first :: "jsval \<Rightarrow> jsval" where
  "optional_first v =
     (case v of
        JArr xs \<Rightarrow> (case xs of [] \<Rightarrow> JUndefined | x # _ \<Rightarrow> x)
      | JStr s \<Rightarrow> (if s = [] then JUndefined else JStr (take 1 s))
      | JObj kvs \<Rightarrow> member v ''0''
      | _ \<Rightarrow> JUndefined)"

text \<open>
  The effects of a call, in order: the construction of a client, a call of \<^verbatim>\<open>fetch\<close>
  with its URL and options, and a line on the error stream.
\<close>

record AuthConfig =
  apiKey :: string
  spaceUrl :: string

datatype event =
    Constructed AuthConfig
  | Fetched string request_init
  | ConsoleError string js_error

section \<open>The API client\<close>

text \<open>\<^verbatim>\<open>BacklogClient.getUrl\<close>, lines 194 to 206.\<close>

definition getUrl :: "platform \<Rightarrow> AuthConfig \<Rightarrow> string \<Rightarrow> (string \<times> string) list \<Rightarrow> js_error + string" where
  "getUrl p config path queryParams =
     (case new_URL p (spaceUrl config @ ''/api/v2'' @ path) of
        Inl e \<Rightarrow> Inl e
      | Inr u \<Rightarrow>
          Inr (url_toString
                (foldl (\<lambda>u' (k, v). searchParams_append u' k v)
                   (searchParams_append u ''apiKey'' (apiKey config)) queryParams)))"

text \<open>
  The options \<^verbatim>\<open>fetch\<close> is called with, lines 216 to 220: those of the caller, with
  the headers replaced by \<^verbatim>\<open>Content-Type\<close> followed by the caller's headers.  The
  caller's options default to \<^verbatim>\<open>{}\<close>, which is \<open>no_options\<close>.
\<close>

definition no_options :: request_init where
  "no_options = \<lparr>init_method = None, init_headers = [], init_body = None\<rparr>"

definition fetch_options :: "request_init \<Rightarrow> request_init" where
  "fetch_options options =
     options\<lparr>init_headers :=
       foldl (\<lambda>h (k, v). AList.update k v h) [(''Content-Type'', ''application/json'')]
         (init_headers options)\<rparr>"

text \<open>
  What line 227 throws on a response that is not ok.  \<^verbatim>\<open>error.errors\<close> is read
  without \<^verbatim>\<open>?.\<close>, so a body \<^verbatim>\<open>null\<close> raises the runtime's \<open>TypeError\<close> (in the wording of
  the V8 engine) before the message is built; and the template literal converts the message and
  the code to strings, which throws for an object that has no primitive value.
\<close>

definition api_error :: "jsval \<Rightarrow> js_error" where
  "api_error data =
     (if nullish data
      then TypeError (''Cannot read properties of '' @
                      (if data = JNull then ''null'' else ''undefined'') @ '' (reading 'errors')'')
      else
        let first = optional_first (member data ''errors'');
            message = optional_member first ''message'';
            code = optional_member first ''code''
        in case ToString (if truthy message then message else JStr ''Unknown error'') of
             Inl e \<Rightarrow> e
           | Inr m \<Rightarrow>
               (case ToString code of
                  Inl e \<Rightarrow> e
                | Inr c \<Rightarrow> Error (''Backlog API Error: '' @ m @ '' (Code: '' @ c @ '')'')))"

text \<open>
  \<^verbatim>\<open>BacklogClient.request\<close>, lines 211 to 235.  The URL is built outside the
  \<^verbatim>\<open>try\<close>; whatever is thrown inside it is logged and thrown again.
\<close>

definition request :: "platform \<Rightarrow> AuthConfig \<Rightarrow> string \<Rightarrow> request_init \<Rightarrow> (string \<times> string) list \<Rightarrow>
    (js_error + jsval) \<times> event list" where
  "request p config path options queryParams =
     (case getUrl p config path queryParams of
        Inl e \<Rightarrow> (Inl e, [])
      | Inr u \<Rightarrow>
          let init = fetch_options options;
              log = (\<lambda>e. ConsoleError (''Error in Backlog API request to '' @ path @ '':'') e)
          in (case fetch p u init of
                Inl e \<Rightarrow> (Inl e, [Fetched u init, log e])
              | Inr r \<Rightarrow>
                  (case json_body r of
                     Inl e \<Rightarrow> (Inl e, [Fetched u init, log e])
                   | Inr data \<Rightarrow>
                       if \<not> ok r
                       then (Inl (api_error data), [Fetched u init, log (api_error data)])
                       else (Inr data, [Fetched u init]))))"

text \<open>
  \<^verbatim>\<open>BacklogClient.getRecentlyViewedProjects\<close>, lines 240 to 248, and the three other
  operations, lines 253 to 269.  A parameter that is \<open>None\<close> is \<^verbatim>\<open>undefined\<close>.
\<close>

record recent_params =
  order :: "string option"
  offset :: "jsnum option"
  count :: "jsnum option"

definition recent_query :: "recent_params \<Rightarrow> (string \<times> string) list" where
  "recent_query params =
     (case order params of
        None \<Rightarrow> []
      | Some s \<Rightarrow> if s = [] then [] else [(''order'', s)]) @
     (case offset params of None \<Rightarrow> [] | Some n \<Rightarrow> [(''offset'', number_toString n)]) @
     (case count params of None \<Rightarrow> [] | Some n \<Rightarrow> [(''count'', number_toString n)])"

definition getRecentlyViewedProjects :: "platform \<Rightarrow> AuthConfig \<Rightarrow> recent_params \<Rightarrow>
    (js_error + jsval) \<times> event list" where
  "getRecentlyViewedProjects p config params =
     request p config ''/users/myself/recentlyViewedProjects'' no_options (recent_query params)"

definition getProject :: "platform \<Rightarrow> AuthConfig \<Rightarrow> string \<Rightarrow> (js_error + jsval) \<times> event list" where
  "getProject p config projectId = request p config (''/projects/'' @ projectId) no_options []"

definition getMyself :: "platform \<Rightarrow> AuthConfig \<Rightarrow> (js_error + jsval) \<times> event list" where
  "getMyself p config = request p config ''/users/myself'' no_options []"

definition getSpace :: "platform \<Rightarrow> AuthConfig \<Rightarrow> (js_error + jsval) \<times> event list" where
  "getSpace p config = request p config ''/space'' no_options []"

section \<open>The tool\<close>

text \<open>\<^verbatim>\<open>formatToolResponse\<close>, lines 78 to 87.\<close>

definition formatToolResponse :: "string \<Rightarrow> jsval \<Rightarrow> jsval" where
  "formatToolResponse title data =
     JObj [(''content'', JArr [JObj [
       (''type'', JStr ''text''),
       (''text'', JStr (''# '' @ title @ newline @ newline @
          (case JSON_stringify data 2 of None \<Rightarrow> ''undefined'' | Some t \<Rightarrow> t)))]])]"

text \<open>
  The two arguments of the tool as lines 93 to 97 resolve them.  \<^verbatim>\<open>args.count\<close> is
  only read where \<^verbatim>\<open>args?.count\<close> is truthy, so where \<^verbatim>\<open>args\<close> is an object.
  \<^verbatim>\<open>Number(args.count)\<close> is evaluated up to three times, with the same outcome each
  time; where it throws, line 93 throws.
\<close>

definition count_of_args :: "jsval \<Rightarrow> js_error + jsnum" where
  "count_of_args args =
     (if truthy (optional_member args ''count'') then
        (case ToNumber (member args ''count'') of
           Inl e \<Rightarrow> Inl e
         | Inr n \<Rightarrow> Inr (if js_gt n 0 \<and> js_le n 100 then n else Fin 20))
      else Inr (Fin 20))"

definition order_of_args :: "jsval \<Rightarrow> string" where
  "order_of_args args = (if optional_member args ''order'' = JStr ''asc'' then ''asc'' else ''desc'')"

text \<open>The message of line 103: the two variable names in Japanese text, in UTF-8.\<close>

definition msg_backlog_env_required :: string where
  "msg_backlog_env_required =
     ''BACKLOG_API_KEY '' @ utf8 [227, 129, 168] @ '' BACKLOG_SPACE_URL '' @
     utf8 [227, 129, 174, 231, 146, 176, 229, 162, 131, 229, 164, 137, 230, 149, 176,
           227, 129, 140, 229, 191, 133, 232, 166, 129, 227, 129, 167, 227, 129, 153]"

text \<open>
  \<^verbatim>\<open>executeTools\<close>, lines 90 to 122, which the handler of a tool call runs on the name
  and the arguments of the request.  Line 93 runs before the credentials are looked
  at and may throw.  \<^verbatim>\<open>!apiKey\<close> holds for an unset variable and for the empty string.
\<close>

definition executeTools :: "platform \<Rightarrow> string \<Rightarrow> jsval \<Rightarrow> (js_error + jsval) \<times> event list" where
  "executeTools p toolName args =
     (if toolName = ''list_recent_projects'' then
        (case count_of_args args of
           Inl e \<Rightarrow> (Inl e, [])
         | Inr number \<Rightarrow>
             let count = number;
                 order = order_of_args args
             in case (process_env p ''BACKLOG_API_KEY'', process_env p ''BACKLOG_SPACE_URL'') of
                  (Some key, Some space) \<Rightarrow>
                    if key = [] \<or> space = [] then (Inl (Error msg_backlog_env_required), [])
                    else
                      let config = \<lparr>apiKey = key, spaceUrl = space\<rparr>;
                          (res, events) = getRecentlyViewedProjects p config
                             \<lparr>order = Some order, offset = None, count = Some count\<rparr>
                      in (case res of
                            Inl e \<Rightarrow> (Inl e, Constructed config # events)
                          | Inr projects \<Rightarrow>
                              (Inr (formatToolResponse ''Recently Viewed Projects'' projects),
                               Constructed config # events))
                | _ \<Rightarrow> (Inl (Error msg_backlog_env_required), []))
      else (Inl (Error ''unknown tool''), []))"

section \<open>A stubbed upstream\<close>

text \<open>
  One recently viewed project in the shape of the interfaces of lines 283 to 307, and
  a platform on which both credentials are set, every address is taken as already in
  normal form with neither query nor fragment, and every request is answered by the
  given response.
\<close>

definition example_projects :: jsval where
  "example_projects =
     JArr [JObj [
       (''project'', JObj [
          (''projectKey'', JStr ''TEST''),
          (''name'', JStr ''test''),
          (''chartEnabled'', JBool False),
          (''useResolvedForChart'', JBool False),
          (''subtaskingEnabled'', JBool False),
          (''projectLeaderCanEditProjectLeader'', JBool False),
          (''useWiki'', JBool True),
          (''useFileSharing'', JBool True),
          (''useWikiTreeView'', JBool True),
          (''useSubversion'', JBool False),
          (''useGit'', JBool True),
          (''useOriginalImageSizeAtWiki'', JBool False),
          (''textFormattingRule'', JStr ''markdown''),
          (''archived'', JBool False),
          (''displayOrder'', JNum (Fin 2147483646)),
          (''useDevAttributes'', JBool True),
          (''id'', JNum (Fin 1))]),
       (''updated'', JStr ''2024-01-01'')]]"

definition stub_config :: AuthConfig where
  "stub_config = \<lparr>apiKey = ''secret'', spaceUrl = ''https://example.backlog.com''\<rparr>"

definition stub_url :: "string \<Rightarrow> url" where
  "stub_url s = \<lparr>url_base = s, searchParams = [], fragment = None\<rparr>"

definition stub_platform :: "(js_error + response) \<Rightarrow> platform" where
  "stub_platform answer =
     \<lparr>process_env = [''BACKLOG_API_KEY'' \<mapsto> apiKey stub_config,
                     ''BACKLOG_SPACE_URL'' \<mapsto> spaceUrl stub_config],
      new_URL = (\<lambda>s. Inr (stub_url s)),
      fetch = (\<lambda>u init. answer)\<rparr>"

definition stub_ok :: "js_error + response" where
  "stub_ok = Inr \<lparr>status = 200, json_body = Inr example_projects\<rparr>"

text \<open>
  Three failing answers: the error body of the upstream API with status 403, a status
  500 whose body is the JSON text \<^verbatim>\<open>null\<close>, and a status 400 whose first error has
  an object for its message.
\<close>

definition stub_forbidden :: "js_error + response" where
  "stub_forbidden =
     Inr \<lparr>status = 403,
          json_body = Inr (JObj [(''errors'', JArr [JObj [
                        (''message'', JStr ''Authentication failure''),
                        (''code'', JNum (Fin 11)),
                        (''moreInfo'', JStr [])]])])\<rparr>"

definition stub_null_body :: "js_error + response" where
  "stub_null_body = Inr \<lparr>status = 500, json_body = Inr JNull\<rparr>"

definition stub_object_message :: "js_error + response" where
  "stub_object_message =
     Inr \<lparr>status = 400,
          json_body = Inr (JObj [(''errors'', JArr [JObj [
                        (''message'', JObj [(''toString'', JNum (Fin 1))]),
                        (''code'', JNum (Fin 11))]])])\<rparr>"


section \<open>Auxiliary facts\<close>

subsection \<open>The client and the tool\<close>

lemma foldl_searchParams_append:
  "foldl (\<lambda>u' (k, v). searchParams_append u' k v) u qp = u\<lparr>searchParams := searchParams u @ qp\<rparr>"
  by (induction qp arbitrary: u) (auto simp: searchParams_append_def)

lemma getUrl_Inr:
  "new_URL p (spaceUrl config @ ''/api/v2'' @ path) = Inr u \<Longrightarrow>
   getUrl p config path qp =
     Inr (url_toString (u\<lparr>searchParams := searchParams u @ (''apiKey'', apiKey config) # qp\<rparr>))"
  by (simp add: getUrl_def foldl_searchParams_append searchParams_append_def)

lemma getUrl_Inl:
  "new_URL p (spaceUrl config @ ''/api/v2'' @ path) = Inl e \<Longrightarrow> getUrl p config path qp = Inl e"
  by (simp add: getUrl_def)

lemma request_no_url:
  "new_URL p (spaceUrl config @ ''/api/v2'' @ path) = Inl e \<Longrightarrow>
   request p config path options qp = (Inl e, [])"
  by (simp add: request_def getUrl_Inl)

lemma request_events:
  assumes "new_URL p (spaceUrl config @ ''/api/v2'' @ path) = Inr u"
  shows "\<exists>rest. snd (request p config path options qp) =
           Fetched (url_toString (u\<lparr>searchParams := searchParams u @ (''apiKey'', apiKey config) # qp\<rparr>))
             (fetch_options options) # rest \<and>
           (rest = [] \<or> (\<exists>m e. rest = [ConsoleError m e]))"
  by (simp add: request_def getUrl_Inr [OF assms] Let_def split: sum.splits)

lemma fetch_options_no_options:
  "fetch_options no_options =
     \<lparr>init_method = None, init_headers = [(''Content-Type'', ''application/json'')], init_body = None\<rparr>"
  by (simp add: fetch_options_def no_options_def)

lemma member_of_truthy:
  "truthy (optional_member args k) \<Longrightarrow> member args k = optional_member args k"
  by (auto simp: optional_member_def split: if_splits)

lemma number_toString_20: "number_toString (Fin 20) = ''20''"
  by code_simp

lemma optional_member_single:
  "optional_member (JObj [(k, v)]) k = v"
  by (simp add: optional_member_def nullish_def member_def)


lemma stub_platform_ready:
  "process_env (stub_platform a) ''BACKLOG_API_KEY'' = Some ''secret'' \<and> ''secret'' \<noteq> [] \<and>
   process_env (stub_platform a) ''BACKLOG_SPACE_URL'' = Some ''https://example.backlog.com'' \<and>
   ''https://example.backlog.com'' \<noteq> [] \<and>
   new_URL (stub_platform a) (''https://example.backlog.com'' @ ''/api/v2/users/myself/recentlyViewedProjects'') =
     Inr (stub_url ''https://example.backlog.com/api/v2/users/myself/recentlyViewedProjects'')"
  by (simp add: stub_platform_def stub_config_def)

lemma recent_query_keys:
  "map_of (recent_query params) ''order'' =
     (case order params of None \<Rightarrow> None | Some s \<Rightarrow> if s = [] then None else Some s)"
  "map_of (recent_query params) ''offset'' = map_option number_toString (offset params)"
  "map_of (recent_query params) ''count'' = map_option number_toString (count params)"
  "distinct (map fst (recent_query params))"
  "set (map fst (recent_query params)) \<subseteq> {''order'', ''offset'', ''count''}"
  by (auto simp: recent_query_def split: option.splits)

lemma request_fetched:
  assumes "Fetched a init \<in> set (snd (request p config path options qp))"
  shows "init = fetch_options options \<and>
         (\<exists>u. new_URL p (spaceUrl config @ ''/api/v2'' @ path) = Inr u \<and>
              a = url_toString (u\<lparr>searchParams := searchParams u @ (''apiKey'', apiKey config) # qp\<rparr>))"
proof (cases "new_URL p (spaceUrl config @ ''/api/v2'' @ path)")
  case (Inl e)
  with assms show ?thesis by (simp add: request_no_url)
next
  case (Inr u)
  from request_events [OF Inr, of options qp] assms Inr show ?thesis by auto
qed

lemma request_not_ok:
  assumes "new_URL p (spaceUrl config @ ''/api/v2'' @ path) = Inr u"
    and "fetch p (url_toString (u\<lparr>searchParams := searchParams u @ (''apiKey'', apiKey config) # qp\<rparr>))
           (fetch_options options) = Inr r"
    and "json_body r = Inr data"
  shows "fst (request p config path options qp) = (if ok r then Inr data else Inl (api_error data))"
  using assms(2,3) by (simp add: request_def getUrl_Inr [OF assms(1)] Let_def)






lemma count_of_args_eq:
  "count_of_args args =
     (if truthy (optional_member args ''count'') then
        (case ToNumber (optional_member args ''count'') of
           Inl e \<Rightarrow> Inl e
         | Inr n \<Rightarrow> Inr (if js_gt n 0 \<and> js_le n 100 then n else Fin 20))
      else Inr (Fin 20))"
  by (auto simp: count_of_args_def member_of_truthy)


lemma executeTools_throws:
  "count_of_args args = Inl e \<Longrightarrow> executeTools p ''list_recent_projects'' args = (Inl e, [])"
  by (simp add: executeTools_def)

lemma executeTools_request:
  assumes "process_env p ''BACKLOG_API_KEY'' = Some key" "key \<noteq> []"
    and "process_env p ''BACKLOG_SPACE_URL'' = Some space" "space \<noteq> []"
    and "new_URL p (space @ ''/api/v2/users/myself/recentlyViewedProjects'') = Inr u"
    and "count_of_args args = Inr n"
  shows "\<exists>rest. snd (executeTools p ''list_recent_projects'' args) =
           Constructed \<lparr>apiKey = key, spaceUrl = space\<rparr> #
           Fetched (url_toString (u\<lparr>searchParams := searchParams u @
                      [(''apiKey'', key), (''order'', order_of_args args),
                       (''count'', number_toString n)]\<rparr>))
             (fetch_options no_options) # rest"
proof -
  let ?config = "\<lparr>apiKey = key, spaceUrl = space\<rparr>"
  let ?params = "\<lparr>order = Some (order_of_args args), offset = None, count = Some n\<rparr>"
  have nonempty: "order_of_args args \<noteq> []"
    by (simp add: order_of_args_def)
  have query: "recent_query ?params =
      [(''order'', order_of_args args), (''count'', number_toString n)]"
    using nonempty by (simp add: recent_query_def)
  have url: "new_URL p (spaceUrl ?config @ ''/api/v2'' @ ''/users/myself/recentlyViewedProjects'') = Inr u"
    using assms(5) by simp
  from request_events [OF url, of no_options "recent_query ?params"]
  obtain rest where rest: "snd (getRecentlyViewedProjects p ?config ?params) =
      Fetched (url_toString (u\<lparr>searchParams := searchParams u @
                 [(''apiKey'', key), (''order'', order_of_args args),
                  (''count'', number_toString n)]\<rparr>))
        (fetch_options no_options) # rest"
    unfolding getRecentlyViewedProjects_def query by auto
  show ?thesis
    using assms(1-4,6) rest
    by (auto simp: executeTools_def Let_def split: prod.splits sum.splits)
qed



lemma api_error_of_strings:
  assumes "\<not> nullish data"
    and "ToString (if truthy (optional_member (optional_first (member data ''errors'')) ''message'')
                   then optional_member (optional_first (member data ''errors'')) ''message''
                   else JStr ''Unknown error'') = Inr m"
    and "ToString (optional_member (optional_first (member data ''errors'')) ''code'') = Inr c"
  shows "api_error data = Error (''Backlog API Error: '' @ m @ '' (Code: '' @ c @ '')'')"
  using assms by (simp add: api_error_def Let_def del: ToString.simps)

lemma api_error_first:
  assumes "member data ''errors'' = JArr (JObj e # es)"
    and "map_of e ''message'' = Some (JStr m)" and "m \<noteq> []"
    and "map_of e ''code'' = Some (JNum c)"
  shows "api_error data = Error (''Backlog API Error: '' @ m @ '' (Code: '' @ number_toString c @ '')'')"
proof -
  have "\<not> nullish data"
    using assms(1) by (auto simp: nullish_def member_def)
  then show ?thesis
    using assms
    by (intro api_error_of_strings)
       (simp_all add: optional_first_def optional_member_def member_def nullish_def
          del: number_toString.simps)
qed

lemma api_error_generic:
  assumes "\<not> nullish data"
    and "nullish (member data ''errors'') \<or> member data ''errors'' = JArr []"
  shows "api_error data = Error ''Backlog API Error: Unknown error (Code: undefined)''"
  using assms
  by (auto simp: api_error_def optional_first_def optional_member_def nullish_def Let_def)

subsection \<open>Reading back JSON text\<close>






































section \<open>Properties\<close>

text \<open>
  C7.  Reading \<^verbatim>\<open>simple://greeting\<close> when \<^verbatim>\<open>SAMPLE_ENV\<close> is \<^verbatim>\<open>hello\<close> returns one text
  content whose text is the greeting followed by exactly \<^verbatim>\<open>hello\<close>; when the variable
  is unset the call fails with the error of line 63 (the spec's ConfigurationError)
  and returns no text.
\<close>

theorem readResource_greeting:
  "readResource (env(''SAMPLE_ENV'' \<mapsto> ''hello'')) ''simple://greeting'' =
     Inr (JObj [(''contents'', JArr [JObj [
            (''uri'', JStr ''simple://greeting''),
            (''mimeType'', JStr ''text/plain''),
            (''text'', JStr (greeting_prefix @ ''hello''))]])]) \<and>
   readResource (env(''SAMPLE_ENV'' := None)) ''simple://greeting'' =
     Inl (Error msg_sample_env_missing)"
  by (simp add: readResource_def)

theorem readResource_greeting_witness:
  "readResource [''SAMPLE_ENV'' \<mapsto> ''hello''] ''simple://greeting'' =
     Inr (JObj [(''contents'', JArr [JObj [
            (''uri'', JStr ''simple://greeting''),
            (''mimeType'', JStr ''text/plain''),
            (''text'', JStr (greeting_prefix @ ''hello''))]])]) \<and>
   readResource Map.empty ''simple://greeting'' = Inl (Error msg_sample_env_missing)"
  using readResource_greeting [of Map.empty] by simp

text \<open>
  C8.  Reading any URI other than \<^verbatim>\<open>simple://greeting\<close> fails, whatever the
  environment holds, with the error of line 75, whose message ends with that URI (the
  spec's NotFoundError).
\<close>

theorem readResource_unknown_uri:
  "uri \<noteq> ''simple://greeting'' \<Longrightarrow>
     readResource env uri = Inl (Error (msg_unknown_resource @ uri))"
  by (simp add: readResource_def)

theorem readResource_unknown_uri_witness:
  "''simple://nope'' \<noteq> ''simple://greeting'' \<and>
   readResource Map.empty ''simple://nope'' = Inl (Error (msg_unknown_resource @ ''simple://nope''))"
  using readResource_unknown_uri [of "''simple://nope''" Map.empty] by simp

text \<open>
  C9.  Calling any tool other than \<^verbatim>\<open>list_recent_projects\<close> fails with the error of
  line 120 (the spec's UnknownToolError); the failure is the result of the call, and
  the call has no effect: no request is made.
\<close>

theorem executeTools_unknown_tool:
  assumes "toolName \<noteq> ''list_recent_projects''"
  shows "executeTools p toolName args = (Inl (Error ''unknown tool''), [])"
  using assms by (simp add: executeTools_def)

theorem executeTools_unknown_tool_witness:
  "''list_projects'' \<noteq> ''list_recent_projects'' \<and>
   executeTools (stub_platform stub_ok) ''list_projects'' JUndefined = (Inl (Error ''unknown tool''), [])"
  using executeTools_unknown_tool [of "''list_projects''" "stub_platform stub_ok" JUndefined] by simp




text \<open>
  C5.  The \<^verbatim>\<open>order\<close> argument resolves to \<^verbatim>\<open>asc\<close> exactly when it is the string
  \<^verbatim>\<open>asc\<close>, and to \<^verbatim>\<open>desc\<close> for every other value, for absent arguments and for
  arguments without an \<^verbatim>\<open>order\<close>.  When the credentials are set and line 93 resolves
  the \<^verbatim>\<open>count\<close>, the resolved order is the \<^verbatim>\<open>order\<close> parameter of the upstream request;
  when line 93 throws, the call fails with what it throws and no request is made.
\<close>

theorem order_argument_resolution:
  "(order_of_args args = ''asc'') = (optional_member args ''order'' = JStr ''asc'') \<and>
   (order_of_args args = ''desc'') = (optional_member args ''order'' \<noteq> JStr ''asc'') \<and>
   order_of_args JUndefined = ''desc'' \<and>
   (map_of kvs ''order'' = None \<longrightarrow> order_of_args (JObj kvs) = ''desc'') \<and>
   (process_env p ''BACKLOG_API_KEY'' = Some key \<and> key \<noteq> [] \<and>
    process_env p ''BACKLOG_SPACE_URL'' = Some space \<and> space \<noteq> [] \<and>
    new_URL p (space @ ''/api/v2/users/myself/recentlyViewedProjects'') = Inr u \<and>
    count_of_args args = Inr n \<longrightarrow>
    (\<exists>rest. snd (executeTools p ''list_recent_projects'' args) =
       Constructed \<lparr>apiKey = key, spaceUrl = space\<rparr> #
       Fetched (url_toString (u\<lparr>searchParams := searchParams u @
                  [(''apiKey'', key),
                   (''order'', if optional_member args ''order'' = JStr ''asc'' then ''asc'' else ''desc''),
                   (''count'', number_toString n)]\<rparr>))
         (fetch_options no_options) # rest)) \<and>
   (count_of_args args = Inl e \<longrightarrow> executeTools p ''list_recent_projects'' args = (Inl e, []))"
proof (intro conjI impI)
  show "(order_of_args args = ''asc'') = (optional_member args ''order'' = JStr ''asc'')"
    by (simp add: order_of_args_def)
  show "(order_of_args args = ''desc'') = (optional_member args ''order'' \<noteq> JStr ''asc'')"
    by (simp add: order_of_args_def)
  show "order_of_args JUndefined = ''desc''"
    by (simp add: order_of_args_def optional_member_def nullish_def)
  show "order_of_args (JObj kvs) = ''desc''" if "map_of kvs ''order'' = None"
    using that by (simp add: order_of_args_def optional_member_def nullish_def member_def)
  show "executeTools p ''list_recent_projects'' args = (Inl e, [])" if "count_of_args args = Inl e"
    using that by (rule executeTools_throws)
next
  assume a: "process_env p ''BACKLOG_API_KEY'' = Some key \<and> key \<noteq> [] \<and>
    process_env p ''BACKLOG_SPACE_URL'' = Some space \<and> space \<noteq> [] \<and>
    new_URL p (space @ ''/api/v2/users/myself/recentlyViewedProjects'') = Inr u \<and>
    count_of_args args = Inr n"
  then show "\<exists>rest. snd (executeTools p ''list_recent_projects'' args) =
       Constructed \<lparr>apiKey = key, spaceUrl = space\<rparr> #
       Fetched (url_toString (u\<lparr>searchParams := searchParams u @
                  [(''apiKey'', key),
                   (''order'', if optional_member args ''order'' = JStr ''asc'' then ''asc'' else ''desc''),
                   (''count'', number_toString n)]\<rparr>))
         (fetch_options no_options) # rest"
    using executeTools_request [of p key space u args n] unfolding order_of_args_def by blast
qed

theorem order_argument_resolution_witness:
  "order_of_args (JObj [(''order'', JStr ''asc'')]) = ''asc'' \<and>
   order_of_args (JObj [(''order'', JStr ''ASC'')]) = ''desc'' \<and>
   order_of_args (JObj [(''order'', JArr [JStr ''asc''])]) = ''desc'' \<and>
   order_of_args (JObj []) = ''desc'' \<and>
   (\<exists>rest. snd (executeTools (stub_platform stub_ok) ''list_recent_projects''
                    (JObj [(''order'', JStr ''asc'')])) =
       Constructed stub_config #
       Fetched (url_toString
                  \<lparr>url_base = ''https://example.backlog.com/api/v2/users/myself/recentlyViewedProjects'',
                   searchParams = [(''apiKey'', ''secret''), (''order'', ''asc''), (''count'', ''20'')],
                   fragment = None\<rparr>)
         (fetch_options no_options) # rest)"
proof -
  let ?args = "JObj [(''order'', JStr ''asc'')]"
  let ?p = "stub_platform stub_ok"
  let ?u = "stub_url ''https://example.backlog.com/api/v2/users/myself/recentlyViewedProjects''"
  have m1: "optional_member ?args ''order'' = JStr ''asc''"
    by (simp add: optional_member_def nullish_def member_def)
  have m2: "optional_member (JObj [(''order'', JStr ''ASC'')]) ''order'' \<noteq> JStr ''asc''"
    by (simp add: optional_member_def nullish_def member_def)
  have m3: "optional_member (JObj [(''order'', JArr [JStr ''asc''])]) ''order'' \<noteq> JStr ''asc''"
    by (simp add: optional_member_def nullish_def member_def)
  have c: "count_of_args ?args = Inr (Fin 20)"
    by (simp add: count_of_args_eq optional_member_def nullish_def member_def)
  note asc = order_argument_resolution [of ?args "[]" ?p "''secret''" "''https://example.backlog.com''" ?u "Fin 20"]
  have a1: "order_of_args ?args = ''asc''"
    using asc m1 by simp
  have a2: "order_of_args (JObj [(''order'', JStr ''ASC'')]) = ''desc''"
    using order_argument_resolution [of "JObj [(''order'', JStr ''ASC'')]" "[]"] m2 by simp
  have a3: "order_of_args (JObj [(''order'', JArr [JStr ''asc''])]) = ''desc''"
    using order_argument_resolution [of "JObj [(''order'', JArr [JStr ''asc''])]" "[]"] m3 by simp
  have a4: "order_of_args (JObj []) = ''desc''"
    using asc by simp
  have "\<exists>rest. snd (executeTools ?p ''list_recent_projects'' ?args) =
       Constructed \<lparr>apiKey = ''secret'', spaceUrl = ''https://example.backlog.com''\<rparr> #
       Fetched (url_toString (?u\<lparr>searchParams := searchParams ?u @
                  [(''apiKey'', ''secret''),
                   (''order'', if optional_member ?args ''order'' = JStr ''asc'' then ''asc'' else ''desc''),
                   (''count'', number_toString (Fin 20))]\<rparr>))
         (fetch_options no_options) # rest"
    using asc [THEN conjunct2, THEN conjunct2, THEN conjunct2, THEN conjunct2, THEN conjunct1, THEN mp]
      stub_platform_ready [of stub_ok] c by blast
  then have a5: "\<exists>rest. snd (executeTools ?p ''list_recent_projects'' ?args) =
       Constructed stub_config #
       Fetched (url_toString
                  \<lparr>url_base = ''https://example.backlog.com/api/v2/users/myself/recentlyViewedProjects'',
                   searchParams = [(''apiKey'', ''secret''), (''order'', ''asc''), (''count'', ''20'')],
                   fragment = None\<rparr>)
         (fetch_options no_options) # rest"
    unfolding m1 number_toString_20 by (simp add: stub_url_def stub_config_def)
  from a1 a2 a3 a4 a5 show ?thesis by blast
qed




text \<open>
  C10.  The validation of \<^verbatim>\<open>count\<close> coerces with \<^verbatim>\<open>Number\<close>: any truthy value whose
  conversion lies in \<open>(0,100]\<close> resolves to that conversion.  The string \<^verbatim>\<open>"50"\<close>
  resolves to the number 50, the string \<^verbatim>\<open>"100.00000000000000001"\<close> to the binary64
  value nearest to it, which is 100, and the non-integer 2.5 passes through unchanged:
  the upstream request carries \<^verbatim>\<open>count=2.5\<close>.
\<close>

theorem count_numeric_coercion:
  "(truthy (optional_member args ''count'') \<and>
    ToNumber (optional_member args ''count'') = Inr n \<and> js_gt n 0 \<and> js_le n 100 \<longrightarrow>
      count_of_args args = Inr n) \<and>
   count_of_args (JObj [(''count'', JStr ''50'')]) = Inr (Fin 50) \<and>
   count_of_args (JObj [(''count'', JStr ''100.00000000000000001'')]) = Inr (Fin 100) \<and>
   count_of_args (JObj [(''count'', JNum (Fin (5 / 2)))]) = Inr (Fin (5 / 2)) \<and>
   number_toString (Fin (5 / 2)) = ''2.5'' \<and>
   (process_env p ''BACKLOG_API_KEY'' = Some key \<and> key \<noteq> [] \<and>
    process_env p ''BACKLOG_SPACE_URL'' = Some space \<and> space \<noteq> [] \<and>
    new_URL p (space @ ''/api/v2/users/myself/recentlyViewedProjects'') = Inr u \<and>
    optional_member args ''count'' = JNum (Fin (5 / 2)) \<longrightarrow>
    (\<exists>ord rest. snd (executeTools p ''list_recent_projects'' args) =
       Constructed \<lparr>apiKey = key, spaceUrl = space\<rparr> #
       Fetched (url_toString (u\<lparr>searchParams := searchParams u @
                  [(''apiKey'', key), (''order'', ord), (''count'', ''2.5'')]\<rparr>))
         (fetch_options no_options) # rest))"
proof (intro conjI impI)
  assume "truthy (optional_member args ''count'') \<and>
    ToNumber (optional_member args ''count'') = Inr n \<and> js_gt n 0 \<and> js_le n 100"
  then show "count_of_args args = Inr n"
    by (simp add: count_of_args_eq)
next
  show "count_of_args (JObj [(''count'', JStr ''50'')]) = Inr (Fin 50)" by code_simp
next
  show "count_of_args (JObj [(''count'', JStr ''100.00000000000000001'')]) = Inr (Fin 100)" by code_simp
next
  show "count_of_args (JObj [(''count'', JNum (Fin (5 / 2)))]) = Inr (Fin (5 / 2))"
    by (simp add: count_of_args_eq optional_member_single)
next
  show "number_toString (Fin (5 / 2)) = ''2.5''" by code_simp
next
  assume a: "process_env p ''BACKLOG_API_KEY'' = Some key \<and> key \<noteq> [] \<and>
    process_env p ''BACKLOG_SPACE_URL'' = Some space \<and> space \<noteq> [] \<and>
    new_URL p (space @ ''/api/v2/users/myself/recentlyViewedProjects'') = Inr u \<and>
    optional_member args ''count'' = JNum (Fin (5 / 2))"
  have s: "number_toString (Fin (5 / 2)) = ''2.5''" by code_simp
  from a have c: "count_of_args args = Inr (Fin (5 / 2))"
    by (simp add: count_of_args_eq)
  from a show "\<exists>ord rest. snd (executeTools p ''list_recent_projects'' args) =
       Constructed \<lparr>apiKey = key, spaceUrl = space\<rparr> #
       Fetched (url_toString (u\<lparr>searchParams := searchParams u @
                  [(''apiKey'', key), (''order'', ord), (''count'', ''2.5'')]\<rparr>))
         (fetch_options no_options) # rest"
    using executeTools_request [of p key space u args "Fin (5 / 2)", OF _ _ _ _ _ c] unfolding s by blast
qed

theorem count_numeric_coercion_witness:
  "count_of_args (JObj [(''count'', JStr ''50'')]) = ToNumber (JStr ''50'') \<and>
   ToNumber (JStr ''50'') = Inr (Fin 50) \<and>
   (\<exists>ord rest. snd (executeTools (stub_platform stub_ok) ''list_recent_projects''
                      (JObj [(''count'', JNum (Fin (5 / 2)))])) =
       Constructed stub_config #
       Fetched (url_toString
                  \<lparr>url_base = ''https://example.backlog.com/api/v2/users/myself/recentlyViewedProjects'',
                   searchParams = [(''apiKey'', ''secret''), (''order'', ord), (''count'', ''2.5'')],
                   fragment = None\<rparr>)
         (fetch_options no_options) # rest) \<and>
   url_toString \<lparr>url_base = ''https://example.backlog.com/api/v2/users/myself/recentlyViewedProjects'',
                 searchParams = [(''apiKey'', ''secret''), (''order'', ''desc''), (''count'', ''2.5'')],
                 fragment = None\<rparr> =
     ''https://example.backlog.com/api/v2/users/myself/recentlyViewedProjects?apiKey=secret&order=desc&count=2.5''"
proof -
  let ?p = "stub_platform stub_ok"
  let ?u = "stub_url ''https://example.backlog.com/api/v2/users/myself/recentlyViewedProjects''"
  let ?s = "JObj [(''count'', JStr ''50'')]"
  let ?h = "JObj [(''count'', JNum (Fin (5 / 2)))]"
  have n: "ToNumber (JStr ''50'') = Inr (Fin 50)" by code_simp
  note T = count_numeric_coercion [of ?s "Fin 50"]
  have a: "count_of_args ?s = ToNumber (JStr ''50'')"
    using T n by (simp add: optional_member_single)
  have pre: "process_env ?p ''BACKLOG_API_KEY'' = Some ''secret'' \<and> ''secret'' \<noteq> [] \<and>
    process_env ?p ''BACKLOG_SPACE_URL'' = Some ''https://example.backlog.com'' \<and>
    ''https://example.backlog.com'' \<noteq> [] \<and>
    new_URL ?p (''https://example.backlog.com'' @ ''/api/v2/users/myself/recentlyViewedProjects'') = Inr ?u \<and>
    optional_member ?h ''count'' = JNum (Fin (5 / 2))"
    using stub_platform_ready [of stub_ok] by (simp add: optional_member_single)
  have "\<exists>ord rest. snd (executeTools ?p ''list_recent_projects'' ?h) =
       Constructed \<lparr>apiKey = ''secret'', spaceUrl = ''https://example.backlog.com''\<rparr> #
       Fetched (url_toString (?u\<lparr>searchParams := searchParams ?u @
                  [(''apiKey'', ''secret''), (''order'', ord), (''count'', ''2.5'')]\<rparr>))
         (fetch_options no_options) # rest"
    using count_numeric_coercion [of ?h _ ?p "''secret''" "''https://example.backlog.com''" ?u,
            THEN conjunct2, THEN conjunct2, THEN conjunct2, THEN conjunct2, THEN conjunct2, THEN mp, OF pre] .
  then have b: "\<exists>ord rest. snd (executeTools ?p ''list_recent_projects'' ?h) =
       Constructed stub_config #
       Fetched (url_toString
                  \<lparr>url_base = ''https://example.backlog.com/api/v2/users/myself/recentlyViewedProjects'',
                   searchParams = [(''apiKey'', ''secret''), (''order'', ord), (''count'', ''2.5'')],
                   fragment = None\<rparr>)
         (fetch_options no_options) # rest"
    by (simp add: stub_url_def stub_config_def)
  have c: "url_toString \<lparr>url_base = ''https://example.backlog.com/api/v2/users/myself/recentlyViewedProjects'',
                 searchParams = [(''apiKey'', ''secret''), (''order'', ''desc''), (''count'', ''2.5'')],
                 fragment = None\<rparr> =
     ''https://example.backlog.com/api/v2/users/myself/recentlyViewedProjects?apiKey=secret&order=desc&count=2.5''"
    by code_simp
  from a n b c show ?thesis by blast
qed

text \<open>
  C6.  Every request of the client is made by \<^verbatim>\<open>request\<close> with the caller's options
  empty: its method is \<^verbatim>\<open>GET\<close>, it has no body, its only header is the fixed
  \<^verbatim>\<open>Content-Type\<close>, and its URL is the parsed address with the query parameter
  \<^verbatim>\<open>apiKey\<close> appended, followed by the parameters of the operation; so the key is in no
  header and in no body.  Of \<^verbatim>\<open>order\<close>, \<^verbatim>\<open>offset\<close> and \<^verbatim>\<open>count\<close> only those that are
  defined are attached (an \<^verbatim>\<open>order\<close> only when it is not the empty string); an absent
  one is no parameter at all.
\<close>

theorem client_request_shape:
  "(\<forall>ev \<in> set (snd (request p config path no_options qp)). \<forall>a init. ev = Fetched a init \<longrightarrow>
      request_method init = ''GET'' \<and> init_body init = None \<and>
      init_headers init = [(''Content-Type'', ''application/json'')] \<and>
      (\<exists>u. new_URL p (spaceUrl config @ ''/api/v2'' @ path) = Inr u \<and>
           a = url_toString (u\<lparr>searchParams := searchParams u @ (''apiKey'', apiKey config) # qp\<rparr>))) \<and>
   (\<forall>u. new_URL p (spaceUrl config @ ''/api/v2'' @ path) = Inr u \<longrightarrow>
      (\<exists>rest. snd (request p config path no_options qp) =
         Fetched (url_toString (u\<lparr>searchParams := searchParams u @ (''apiKey'', apiKey config) # qp\<rparr>))
           (fetch_options no_options) # rest)) \<and>
   getRecentlyViewedProjects p config params =
     request p config ''/users/myself/recentlyViewedProjects'' no_options (recent_query params) \<and>
   getProject p config projectId = request p config (''/projects/'' @ projectId) no_options [] \<and>
   getMyself p config = request p config ''/users/myself'' no_options [] \<and>
   getSpace p config = request p config ''/space'' no_options [] \<and>
   map_of (recent_query params) ''order'' =
     (case order params of None \<Rightarrow> None | Some s \<Rightarrow> if s = [] then None else Some s) \<and>
   map_of (recent_query params) ''offset'' = map_option number_toString (offset params) \<and>
   map_of (recent_query params) ''count'' = map_option number_toString (count params) \<and>
   distinct (map fst (recent_query params)) \<and>
   set (map fst (recent_query params)) \<subseteq> {''order'', ''offset'', ''count''}"
proof (intro conjI ballI allI impI)
  fix ev a init
  assume "ev \<in> set (snd (request p config path no_options qp))" and "ev = Fetched a init"
  then have f: "Fetched a init \<in> set (snd (request p config path no_options qp))" by simp
  from request_fetched [OF f] have i: "init = fetch_options no_options"
    and u: "\<exists>u. new_URL p (spaceUrl config @ ''/api/v2'' @ path) = Inr u \<and>
           a = url_toString (u\<lparr>searchParams := searchParams u @ (''apiKey'', apiKey config) # qp\<rparr>)"
    by simp_all
  show "request_method init = ''GET''"
    by (simp add: i fetch_options_no_options request_method_def)
  show "init_body init = None"
    by (simp add: i fetch_options_no_options)
  show "init_headers init = [(''Content-Type'', ''application/json'')]"
    by (simp add: i fetch_options_no_options)
  show "\<exists>u. new_URL p (spaceUrl config @ ''/api/v2'' @ path) = Inr u \<and>
           a = url_toString (u\<lparr>searchParams := searchParams u @ (''apiKey'', apiKey config) # qp\<rparr>)"
    by (rule u)
next
  fix u
  assume "new_URL p (spaceUrl config @ ''/api/v2'' @ path) = Inr u"
  from request_events [OF this, of no_options qp]
  show "\<exists>rest. snd (request p config path no_options qp) =
         Fetched (url_toString (u\<lparr>searchParams := searchParams u @ (''apiKey'', apiKey config) # qp\<rparr>))
           (fetch_options no_options) # rest"
    by blast
qed (use recent_query_keys [of params] in
      \<open>simp_all add: getRecentlyViewedProjects_def getProject_def getMyself_def getSpace_def\<close>)

theorem client_request_shape_witness:
  "snd (getRecentlyViewedProjects (stub_platform stub_ok) stub_config
          \<lparr>order = Some ''asc'', offset = None, count = Some (Fin 20)\<rparr>) =
     [Fetched ''https://example.backlog.com/api/v2/users/myself/recentlyViewedProjects?apiKey=secret&order=asc&count=20''
        (fetch_options no_options)] \<and>
   request_method (fetch_options no_options) = ''GET'' \<and>
   init_body (fetch_options no_options) = None \<and>
   init_headers (fetch_options no_options) = [(''Content-Type'', ''application/json'')] \<and>
   map_of (recent_query \<lparr>order = Some ''asc'', offset = None, count = Some (Fin 20)\<rparr>) ''offset'' = None \<and>
   map_of (recent_query \<lparr>order = Some ''asc'', offset = None, count = Some (Fin 20)\<rparr>) ''count'' = Some ''20''"
proof -
  let ?p = "stub_platform stub_ok"
  let ?params = "\<lparr>order = Some ''asc'', offset = None, count = Some (Fin 20)\<rparr>"
  let ?path = "''/users/myself/recentlyViewedProjects''"
  let ?a = "''https://example.backlog.com/api/v2/users/myself/recentlyViewedProjects?apiKey=secret&order=asc&count=20''"
  note T = client_request_shape [of ?p stub_config ?path "recent_query ?params" ?params]
  have ev: "snd (getRecentlyViewedProjects ?p stub_config ?params) = [Fetched ?a (fetch_options no_options)]"
    by code_simp
  then have mem: "Fetched ?a (fetch_options no_options) \<in>
      set (snd (request ?p stub_config ?path no_options (recent_query ?params)))"
    using T by simp
  from T [THEN conjunct1, THEN bspec, OF mem, THEN spec, THEN spec, THEN mp, OF refl]
  have shape: "request_method (fetch_options no_options) = ''GET'' \<and>
      init_body (fetch_options no_options) = None \<and>
      init_headers (fetch_options no_options) = [(''Content-Type'', ''application/json'')]"
    by blast
  have q1: "map_of (recent_query ?params) ''offset'' = None"
    using T by simp
  have q2: "map_of (recent_query ?params) ''count'' = Some ''20''"
    using T number_toString_20 by simp
  from ev shape q1 q2 show ?thesis by blast
qed

text \<open>
  C2.  The spec gives every response that is not ok the error of line 227, with the
  generic message when the body has no first error.  The code misses a case: line 227
  reads \<^verbatim>\<open>error.errors?.[0]?.message\<close>, which guards \<^verbatim>\<open>errors\<close> and its first element with
  \<^verbatim>\<open>?.\<close> but not \<^verbatim>\<open>error\<close> itself.  For a response with status 500 whose body is the JSON
  text \<^verbatim>\<open>null\<close> the request fails with the \<open>TypeError\<close> the runtime raises on reading
  \<^verbatim>\<open>errors\<close> of \<^verbatim>\<open>null\<close>, and not with \<^verbatim>\<open>Backlog API Error: Unknown error\<close>.  The template
  literal of the same line misses a second case: a first error whose message is an
  object without a primitive value raises the \<open>TypeError\<close> of the conversion.
\<close>

theorem request_unguarded_body:
  "stub_null_body = Inr \<lparr>status = 500, json_body = Inr JNull\<rparr> \<and>
   \<not> ok \<lparr>status = 500, json_body = Inr JNull\<rparr> \<and>
   fst (getRecentlyViewedProjects (stub_platform stub_null_body) stub_config
          \<lparr>order = Some ''desc'', offset = None, count = Some (Fin 20)\<rparr>) =
     Inl (TypeError (''Cannot read properties of null (reading '' @ [CHR 0x27] @ ''errors'' @
                       [CHR 0x27] @ '')'')) \<and>
   fst (getRecentlyViewedProjects (stub_platform stub_object_message) stub_config
          \<lparr>order = Some ''desc'', offset = None, count = Some (Fin 20)\<rparr>) =
     Inl (TypeError ''Cannot convert object to primitive value'')"
proof -
  have a: "\<not> ok \<lparr>status = 500, json_body = Inr JNull\<rparr>"
    by (simp add: ok_def)
  have b: "fst (getRecentlyViewedProjects (stub_platform stub_null_body) stub_config
          \<lparr>order = Some ''desc'', offset = None, count = Some (Fin 20)\<rparr>) =
     Inl (TypeError (''Cannot read properties of null (reading '' @ [CHR 0x27] @ ''errors'' @
                       [CHR 0x27] @ '')''))"
    by code_simp
  have c: "fst (getRecentlyViewedProjects (stub_platform stub_object_message) stub_config
          \<lparr>order = Some ''desc'', offset = None, count = Some (Fin 20)\<rparr>) =
     Inl (TypeError ''Cannot convert object to primitive value'')"
    by code_simp
  from a b c show ?thesis by (simp add: stub_null_body_def)
qed



text \<open>
  X1.  When the response is not ok and its body is a JSON value other than \<^verbatim>\<open>null\<close>,
  the request fails with the error of line 227 whenever the template literal can
  convert the message and the code: its message is \<^verbatim>\<open>Backlog API Error: M (Code: C)\<close>,
  where \<open>M\<close> is the message of the first element of the body's \<^verbatim>\<open>errors\<close> when that is
  truthy and \<^verbatim>\<open>Unknown error\<close> otherwise, and \<open>C\<close> is the code of that element,
  \<^verbatim>\<open>undefined\<close> when there is none.  For the 403 body of the upstream API the message is
  \<^verbatim>\<open>Backlog API Error: Authentication failure (Code: 11)\<close>.
\<close>

theorem request_api_error:
  assumes "new_URL p (spaceUrl config @ ''/api/v2'' @ path) = Inr u"
    and "fetch p (url_toString (u\<lparr>searchParams := searchParams u @ (''apiKey'', apiKey config) # qp\<rparr>))
           (fetch_options options) = Inr r"
    and "\<not> ok r" and "json_body r = Inr data" and "\<not> nullish data"
  shows "(\<forall>e es m c. member data ''errors'' = JArr (JObj e # es) \<and>
            map_of e ''message'' = Some (JStr m) \<and> m \<noteq> [] \<and> map_of e ''code'' = Some (JNum c) \<longrightarrow>
            fst (request p config path options qp) =
              Inl (Error (''Backlog API Error: '' @ m @ '' (Code: '' @ number_toString c @ '')''))) \<and>
         (nullish (member data ''errors'') \<or> member data ''errors'' = JArr [] \<longrightarrow>
            fst (request p config path options qp) =
              Inl (Error ''Backlog API Error: Unknown error (Code: undefined)'')) \<and>
         (\<forall>m c.
            ToString (if truthy (optional_member (optional_first (member data ''errors'')) ''message'')
                      then optional_member (optional_first (member data ''errors'')) ''message''
                      else JStr ''Unknown error'') = Inr m \<and>
            ToString (optional_member (optional_first (member data ''errors'')) ''code'') = Inr c \<longrightarrow>
            fst (request p config path options qp) =
              Inl (Error (''Backlog API Error: '' @ m @ '' (Code: '' @ c @ '')'')))"
proof -
  have res: "fst (request p config path options qp) = Inl (api_error data)"
    using request_not_ok [OF assms(1,2,4)] assms(3) by simp
  show ?thesis
    unfolding res using assms(5)
    by (auto simp: api_error_first api_error_generic api_error_of_strings simp del: ToString.simps)
qed

theorem request_api_error_witness:
  "fst (getRecentlyViewedProjects (stub_platform stub_forbidden) stub_config
          \<lparr>order = Some ''desc'', offset = None, count = Some (Fin 20)\<rparr>) =
     Inl (Error (''Backlog API Error: '' @ ''Authentication failure'' @ '' (Code: '' @ ''11'' @ '')''))"
proof -
  let ?p = "stub_platform stub_forbidden"
  let ?params = "\<lparr>order = Some ''desc'', offset = None, count = Some (Fin 20)\<rparr>"
  let ?path = "''/users/myself/recentlyViewedProjects''"
  let ?u = "stub_url (''https://example.backlog.com/api/v2'' @ ?path)"
  let ?first = "[(''message'', JStr ''Authentication failure''), (''code'', JNum (Fin 11)),
                 (''moreInfo'', JStr [])]"
  let ?data = "JObj [(''errors'', JArr [JObj ?first])]"
  let ?r = "\<lparr>status = 403, json_body = Inr ?data\<rparr>"
  have u: "new_URL ?p (spaceUrl stub_config @ ''/api/v2'' @ ?path) = Inr ?u"
    by (simp add: stub_platform_def stub_config_def)
  have f: "fetch ?p (url_toString (?u\<lparr>searchParams := searchParams ?u @
              (''apiKey'', apiKey stub_config) # recent_query ?params\<rparr>)) (fetch_options no_options) = Inr ?r"
    by (simp add: stub_platform_def stub_forbidden_def)
  have nok: "\<not> ok ?r" by (simp add: ok_def)
  have j: "json_body ?r = Inr ?data" by simp
  have nn: "\<not> nullish ?data" by (simp add: nullish_def)
  have eleven: "number_toString (Fin 11) = ''11''" by code_simp
  have pre: "member ?data ''errors'' = JArr (JObj ?first # []) \<and>
      map_of ?first ''message'' = Some (JStr ''Authentication failure'') \<and>
      ''Authentication failure'' \<noteq> [] \<and> map_of ?first ''code'' = Some (JNum (Fin 11))"
    by (simp add: member_def)
  from request_api_error [OF u f nok j nn, THEN conjunct1, THEN spec, THEN spec, THEN spec, THEN spec,
      THEN mp, OF pre]
  show ?thesis
    unfolding getRecentlyViewedProjects_def eleven .
qed

text \<open>
  X2.  A \<^verbatim>\<open>count\<close> between 0 and 1 is not replaced by the default: line 93 tests
  \<^verbatim>\<open>> 0\<close>, not \<^verbatim>\<open>>= 1\<close>, so 0.5 resolves to 0.5 and the upstream request carries
  \<^verbatim>\<open>count=0.5\<close>.
\<close>

theorem count_below_one:
  "count_of_args (JObj [(''count'', JNum (Fin (1 / 2)))]) = Inr (Fin (1 / 2)) \<and>
   snd (executeTools (stub_platform stub_ok) ''list_recent_projects''
          (JObj [(''count'', JNum (Fin (1 / 2)))])) =
     [Constructed stub_config,
      Fetched ''https://example.backlog.com/api/v2/users/myself/recentlyViewedProjects?apiKey=secret&order=desc&count=0.5''
        \<lparr>init_method = None, init_headers = [(''Content-Type'', ''application/json'')], init_body = None\<rparr>]"
proof -
  have a: "count_of_args (JObj [(''count'', JNum (Fin (1 / 2)))]) = Inr (Fin (1 / 2))"
    by (simp add: count_of_args_eq optional_member_single)
  have b: "snd (executeTools (stub_platform stub_ok) ''list_recent_projects''
          (JObj [(''count'', JNum (Fin (1 / 2)))])) =
     [Constructed stub_config,
      Fetched ''https://example.backlog.com/api/v2/users/myself/recentlyViewedProjects?apiKey=secret&order=desc&count=0.5''
        \<lparr>init_method = None, init_headers = [(''Content-Type'', ''application/json'')], init_body = None\<rparr>]"
    by code_simp
  from a b show ?thesis by simp
qed

end
